theory Spec2Isabelle
  imports Main "HOL-Library.AList"
begin

section \<open>Identifiers, errors and requests\<close>

text \<open>
  A MongoDB \<open>ObjectId\<close> is an object (always truthy in JavaScript) whose \<open>toString()\<close> is its
  hexadecimal rendering; the rendering determines the id.  A plain \<open>string\<close> id is its own
  \<open>toString()\<close>.
\<close>

datatype objectId = ObjectId (toString: string)

text \<open>
  A thrown JavaScript error: its \<open>message\<close>, and \<open>err?.response?.data?.error\<close> (present on
  errors raised by the OAuth library for a rejected token request, absent on \<open>new Error(m)\<close>).
\<close>

datatype js_error = JsError (message: string) (response_data_error: "string option")

definition new_Error :: "string \<Rightarrow> js_error" where
  "new_Error m = JsError m None"

text \<open>\<open>src/types/user.ts\<close>: only \<open>_id\<close> and \<open>email\<close> matter here.  \<open>uid\<close> is \<open>_id\<close>;
  \<open>None\<close> is a missing (\<open>undefined\<close>/\<open>null\<close>) \<open>_id\<close>, which the guards test for.\<close>

record user_doc =
  uid :: "objectId option"
  email :: string

text \<open>\<open>AuthRequest\<close>: \<open>req.user\<close> is set by the session middleware, or absent.\<close>

record authRequest =
  user :: "user_doc option"

section \<open>Authorization gate (\<open>lib/utils\<close>)\<close>

definition authorizeUserAccess :: "authRequest \<Rightarrow> string \<Rightarrow> js_error + bool" where
  "authorizeUserAccess req resourceUserId =
     (case user req of
        None \<Rightarrow> Inl (new_Error ''User not authenticated'')
      | Some u \<Rightarrow>
          (case uid u of
             None \<Rightarrow> Inl (new_Error ''User not authenticated'')
           | Some i \<Rightarrow>
               if toString i \<noteq> resourceUserId
               then Inl (new_Error ''Unauthorized: Cannot access another user's resources'')
               else Inr True))"

section \<open>Credential store (\<open>IntegrationModel\<close>)\<close>

text \<open>
  One stored integration document.  \<open>iid\<close> is \<open>_id\<close>.  Dates are their time values
  (milliseconds since the epoch); a stored date is a valid date, so \<open>toISOString()\<close> of two
  dates agree exactly when the time values agree.
\<close>

record integration =
  iid :: objectId
  user_id :: objectId
  name :: string
  access_token :: "string option"
  refresh_token :: "string option"
  expires_at :: "int option"
  created_at :: int
  updated_at :: int

text \<open>The \<open>updates\<close> object of a \<open>$set\<close>: \<open>None\<close> is a key that is not present.\<close>

record updates =
  upd_access_token :: "string option"
  upd_refresh_token :: "string option"
  upd_expires_at :: "int option"
  upd_updated_at :: "int option"

definition no_updates :: updates where
  "no_updates = \<lparr>upd_access_token = None, upd_refresh_token = None,
                  upd_expires_at = None, upd_updated_at = None\<rparr>"

text \<open>\<open>Object.keys(updates).length\<close>\<close>

definition keys_length :: "updates \<Rightarrow> nat" where
  "keys_length u =
     (if upd_access_token u = None then 0 else 1) +
     (if upd_refresh_token u = None then 0 else 1) +
     (if upd_expires_at u = None then 0 else 1) +
     (if upd_updated_at u = None then 0 else 1)"

text \<open>Writing the present keys of \<open>updates\<close> over a document: what \<open>$set\<close> does to the
  stored document and what \<open>Object.assign(integration, updates)\<close> does to the one in memory.\<close>

definition assign :: "updates \<Rightarrow> integration \<Rightarrow> integration" where
  "assign u d =
     d\<lparr>access_token := (case upd_access_token u of None \<Rightarrow> access_token d | Some a \<Rightarrow> Some a),
       refresh_token := (case upd_refresh_token u of None \<Rightarrow> refresh_token d | Some r \<Rightarrow> Some r),
       expires_at := (case upd_expires_at u of None \<Rightarrow> expires_at d | Some e \<Rightarrow> Some e),
       updated_at := (case upd_updated_at u of None \<Rightarrow> updated_at d | Some t \<Rightarrow> t)\<rparr>"

text \<open>\<open>IntegrationModel.findOne({ user_id, name })\<close>: the first matching document.\<close>

definition findOne :: "objectId \<Rightarrow> string \<Rightarrow> integration list \<Rightarrow> integration option" where
  "findOne u n ds = find (\<lambda>d. user_id d = u \<and> name d = n) ds"

text \<open>\<open>IntegrationModel.updateOne({ _id }, { $set: updates })\<close>: the first document with
  this \<open>_id\<close> is updated; no document is added or removed.\<close>

fun updateOne :: "objectId \<Rightarrow> updates \<Rightarrow> integration list \<Rightarrow> integration list" where
  "updateOne i u [] = []"
| "updateOne i u (d # ds) = (if iid d = i then assign u d # ds else d # updateOne i u ds)"

section \<open>JavaScript values\<close>

text \<open>
  The values that flow through the \<open>any\<close>-typed event payloads.  An object is its list of
  properties in insertion order, with distinct keys.  Numbers are integers here (no payload
  below computes with fractions).  \<open>String.prototype.trim\<close> and \<open>toLowerCase\<close> belong to
  the runtime and are parameters \<open>trim\<close> and \<open>toLowerCase\<close> of the functions that call them.
\<close>

datatype jsval =
    JUndefined
  | JNull
  | JBool bool
  | JNum int
  | JStr string
  | JArr "jsval list"
  | JObj "(string \<times> jsval) list"

type_synonym jsobject = "(string \<times> jsval) list"

fun truthy :: "jsval \<Rightarrow> bool" where
  "truthy JUndefined = False"
| "truthy JNull = False"
| "truthy (JBool b) = b"
| "truthy (JNum n) = (n \<noteq> 0)"
| "truthy (JStr s) = (s \<noteq> [])"
| "truthy (JArr xs) = True"
| "truthy (JObj ps) = True"

text \<open>\<open>o[k]\<close>: \<open>undefined\<close> when the object has no such property.\<close>

definition get_prop :: "jsobject \<Rightarrow> string \<Rightarrow> jsval" where
  "get_prop ob k = (case map_of ob k of None \<Rightarrow> JUndefined | Some v \<Rightarrow> v)"

text \<open>An object literal \<open>{ k1: v1, ..., ...rest }\<close>: properties are written left to right, a
  later one overwriting an earlier one of the same key (in its place).\<close>

definition obj_literal :: "(string \<times> jsval) list \<Rightarrow> jsobject" where
  "obj_literal props = foldl (\<lambda>ob (k, v). AList.update k v ob) [] props"

text \<open>The decimal rendering of a number in a template literal.\<close>

function decimal_digits :: "int \<Rightarrow> string" where
  "decimal_digits n =
     (if n < 10 then [char_of (48 + n)]
      else decimal_digits (n div 10) @ [char_of (48 + n mod 10)])"
  by pat_completeness auto
termination
  by (relation "measure nat") auto

declare decimal_digits.simps [simp del]

definition decimal :: "int \<Rightarrow> string" where
  "decimal i = (if i < 0 then CHR ''-'' # decimal_digits (- i) else decimal_digits i)"

text \<open>A \<open>Date\<close> object: invalid, or a time value in milliseconds since the epoch.\<close>

datatype jsdate = InvalidDate | Date int

text \<open>\<open>a < b\<close> on dates compares the time values; with an invalid date it is false.\<close>

fun date_lt :: "jsdate \<Rightarrow> jsdate \<Rightarrow> bool" where
  "date_lt (Date a) (Date b) = (a < b)"
| "date_lt _ _ = False"

section \<open>Calendar API requests\<close>

text \<open>The argument of \<open>calendar.events.insert\<close>.\<close>

record insert_params =
  calendarId :: string
  requestBody :: jsobject
  conferenceDataVersion :: "nat option"

text \<open>An event of \<open>calendar.events.list\<close>: the fields \<open>checkConflict\<close> reads, and the rest.\<close>

record event =
  ev_id :: "string option"
  ev_summary :: "string option"
  ev_status :: "string option"
  ev_start_dateTime :: "string option"
  ev_end_dateTime :: "string option"
  ev_other :: jsobject

section \<open>Observable effects\<close>

text \<open>The credentials handed to a client by \<open>setCredentials\<close>.\<close>

record credentials =
  cred_access_token :: "string option"
  cred_refresh_token :: "string option"
  cred_expiry_date :: int

text \<open>An \<open>OAuth2Client\<close>: the credentials it was given, and whether the listener of
  \<open>refreshAndSaveTokens\<close> is registered on its \<open>tokens\<close> event.\<close>

record oauth2client =
  creds :: credentials
  saves_tokens :: bool

text \<open>What the provider's token endpoint returns (the payload of the \<open>tokens\<close> event).\<close>

record tokens =
  tok_access_token :: "string option"
  tok_refresh_token :: "string option"
  tok_expiry_date :: "int option"

text \<open>
  \<open>client.getAccessToken()\<close> belongs to the OAuth library: it either throws, or returns,
  having emitted a \<open>tokens\<close> event (\<open>Some\<close>) or not.  It is a parameter of the model.
\<close>

datatype access_outcome = Throws js_error | Returns "tokens option"

type_synonym provider = "credentials \<Rightarrow> access_outcome"

text \<open>Every access to the store, every client constructed and every call of the
  provider is recorded, in order.\<close>

datatype effect =
    FindOne objectId string
  | UpdateOne objectId updates
  | NewOAuth2Client credentials
  | GetAccessToken
  | EventsList jsdate jsdate
  | EventsInsert insert_params

text \<open>
  A \<open>tokens\<close> listener that has reached its \<open>await IntegrationModel.updateOne(...)\<close>: the
  document it holds in memory and the \<open>updates\<close> it is writing.  The emitter does not await a
  listener, so the write lands, and \<open>Object.assign\<close> runs, after the code that caused the
  event has gone on.
\<close>

record pending_save =
  ps_doc :: integration
  ps_updates :: updates

record world =
  store :: "integration list"
  trace :: "effect list"
  pending :: "pending_save list"

definition db_findOne :: "objectId \<Rightarrow> string \<Rightarrow> world \<Rightarrow> integration option \<times> world" where
  "db_findOne u n w = (findOne u n (store w), w\<lparr>trace := trace w @ [FindOne u n]\<rparr>)"

definition db_updateOne :: "objectId \<Rightarrow> updates \<Rightarrow> world \<Rightarrow> world" where
  "db_updateOne i u w =
     w\<lparr>store := updateOne i u (store w), trace := trace w @ [UpdateOne i u]\<rparr>"

section \<open>Token refresh (\<open>lib/googleapis\<close>)\<close>

text \<open>
  Every \<open>await\<close> is a step of a sequential run.  A listener is not awaited: when its event
  is emitted it runs up to its first \<open>await\<close> and is then pending.  \<open>now\<close> is the clock
  reading of the request: \<open>Date.now()\<close> and each \<open>new Date()\<close> read it.
\<close>

definition TOKEN_SKEW_MS :: int where
  "TOKEN_SKEW_MS = 5 * 60 * 1000"

text \<open>Truthiness of an optional string and of an optional number.\<close>

definition truthy_str :: "string option \<Rightarrow> bool" where
  "truthy_str s = (case s of None \<Rightarrow> False | Some v \<Rightarrow> v \<noteq> [])"

definition truthy_num :: "int option \<Rightarrow> bool" where
  "truthy_num n = (case n of None \<Rightarrow> False | Some v \<Rightarrow> v \<noteq> 0)"

text \<open>The \<open>updates\<close> object the \<open>tokens\<close> listener builds before it looks at its size.\<close>

definition token_updates :: "tokens \<Rightarrow> integration \<Rightarrow> updates" where
  "token_updates t integration =
     \<lparr>upd_access_token =
        (if truthy_str (tok_access_token t) \<and> tok_access_token t \<noteq> access_token integration
         then tok_access_token t else None),
      upd_refresh_token =
        (if truthy_str (tok_refresh_token t) \<and> tok_refresh_token t \<noteq> refresh_token integration
         then tok_refresh_token t else None),
      upd_expires_at =
        (if truthy_num (tok_expiry_date t) \<and> tok_expiry_date t \<noteq> expires_at integration
         then tok_expiry_date t else None),
      upd_updated_at = None\<rparr>"

text \<open>\<open>new Date(v)\<close> is a valid date when \<open>v\<close> is within 8.64e15 milliseconds of the epoch;
  \<open>toISOString()\<close> of any other throws a \<open>RangeError\<close>.\<close>

definition valid_time :: "int \<Rightarrow> bool" where
  "valid_time v = (- 8640000000000000 \<le> v \<and> v \<le> 8640000000000000)"

definition expiry_out_of_range :: "tokens \<Rightarrow> bool" where
  "expiry_out_of_range t =
     (case tok_expiry_date t of None \<Rightarrow> False | Some v \<Rightarrow> v \<noteq> 0 \<and> \<not> valid_time v)"

text \<open>
  The listener that \<open>refreshAndSaveTokens\<close> registers, from the \<open>tokens\<close> event to its first
  \<open>await\<close>: it throws (its promise is rejected and nobody looks at it), or finds nothing to
  save, or starts the write of \<open>updates\<close>.
\<close>

datatype listener_step = ListenerThrows js_error | NothingToSave | Saves updates

definition on_tokens :: "int \<Rightarrow> tokens \<Rightarrow> integration \<Rightarrow> listener_step" where
  "on_tokens now t integration =
     (if expiry_out_of_range t then ListenerThrows (new_Error ''Invalid time value'')
      else
        (let updates = token_updates t integration in
         if keys_length updates \<noteq> 0 then Saves (updates\<lparr>upd_updated_at := Some now\<rparr>)
         else NothingToSave))"




definition refreshAndSaveTokens :: "oauth2client \<Rightarrow> oauth2client" where
  "refreshAndSaveTokens client = client\<lparr>saves_tokens := True\<rparr>"

text \<open>
  \<open>ensureFreshAccessToken\<close>.  A \<open>tokens\<close> event emitted during \<open>getAccessToken\<close> reaches
  the listener when it is registered; a listener that starts a write is pending when
  \<open>getAccessToken\<close> returns.  The result carries the document in memory.
\<close>

definition ensureFreshAccessToken ::
    "provider \<Rightarrow> int \<Rightarrow> oauth2client \<Rightarrow> integration \<Rightarrow> world \<Rightarrow> (js_error + integration) \<times> world" where
  "ensureFreshAccessToken prov now client integration w =
     (let exp = (case expires_at integration of Some d \<Rightarrow> d | None \<Rightarrow> 0) in
      if exp = 0 \<or> exp - now \<le> TOKEN_SKEW_MS then
        (let w1 = w\<lparr>trace := trace w @ [GetAccessToken]\<rparr> in
         case prov (creds client) of
           Returns None \<Rightarrow> (Inr integration, w1)
         | Returns (Some t) \<Rightarrow>
             (if saves_tokens client
              then (case on_tokens now t integration of
                      Saves updates \<Rightarrow>
                        (Inr integration,
                         w1\<lparr>pending := pending w1 @
                                [\<lparr>ps_doc = integration, ps_updates = updates\<rparr>]\<rparr>)
                    | _ \<Rightarrow> (Inr integration, w1))
              else (Inr integration, w1))
         | Throws err \<Rightarrow>
             (if response_data_error err = Some ''invalid_grant''
              then (Inl err,
                    db_updateOne (iid integration) (no_updates\<lparr>upd_updated_at := Some now\<rparr>) w1)
              else (Inl err, w1)))
      else (Inr integration, w))"

text \<open>
  The part that \<open>getGoogleService\<close> and \<open>getGoogleServiceByUserId\<close> have in common, word for
  word: look the integration up, construct a client and set its credentials from the stored
  tokens (\<open>client_credentials\<close>), register the listener, make sure the access token is fresh,
  return the client.
\<close>

definition client_credentials :: "integration \<Rightarrow> credentials" where
  "client_credentials integration =
     \<lparr>cred_access_token = access_token integration,
      cred_refresh_token = refresh_token integration,
      cred_expiry_date = (case expires_at integration of Some d \<Rightarrow> d | None \<Rightarrow> 0)\<rparr>"

definition google_client_for ::
    "provider \<Rightarrow> int \<Rightarrow> objectId \<Rightarrow> world \<Rightarrow> (js_error + oauth2client) \<times> world" where
  "google_client_for prov now userId w =
     (case db_findOne userId ''google'' w of
        (None, w1) \<Rightarrow> (Inl (new_Error ''No Google integration found''), w1)
      | (Some integration, w1) \<Rightarrow>
          (let client = \<lparr>creds = client_credentials integration, saves_tokens = False\<rparr>;
               w2 = w1\<lparr>trace := trace w1 @ [NewOAuth2Client (creds client)]\<rparr>;
               client' = refreshAndSaveTokens client in
           case ensureFreshAccessToken prov now client' integration w2 of
             (Inl err, w3) \<Rightarrow> (Inl err, w3)
           | (Inr integration', w3) \<Rightarrow> (Inr client', w3)))"

definition getGoogleService ::
    "provider \<Rightarrow> int \<Rightarrow> authRequest \<Rightarrow> world \<Rightarrow> (js_error + oauth2client) \<times> world" where
  "getGoogleService prov now req w =
     (case user req of
        None \<Rightarrow> (Inl (new_Error ''User not authenticated''), w)
      | Some u \<Rightarrow>
          (case uid u of
             None \<Rightarrow> (Inl (new_Error ''User not authenticated''), w)
           | Some userId \<Rightarrow> google_client_for prov now userId w))"

definition getGoogleServiceByUserId ::
    "provider \<Rightarrow> int \<Rightarrow> string \<Rightarrow> string \<Rightarrow> world \<Rightarrow> (js_error + oauth2client) \<times> world" where
  "getGoogleServiceByUserId prov now userId requestingUserId w =
     (if userId \<noteq> requestingUserId
      then (Inl (new_Error ''Unauthorized: Cannot access another user's integrations''), w)
      else google_client_for prov now (ObjectId userId) w)"

section \<open>The OAuth library's \<open>getAccessToken\<close>\<close>

text \<open>
  \<open>OAuth2Client.getAccessToken\<close> of \<open>google-auth-library\<close>, which the repository calls and
  does not contain.  It asks the token endpoint for new tokens only when the client holds no
  access token or \<open>isTokenExpiring()\<close>; otherwise it returns the token it holds.
  \<open>isTokenExpiring()\<close> is \<open>expiry_date ? expiry_date <= now + eagerRefreshThresholdMillis :
  false\<close>, with a threshold of five minutes: an \<open>expiry_date\<close> of 0 means that no expiry is
  known, and such a token never counts as expiring.  Without a refresh token it throws before
  any request.  A reply of the endpoint is emitted as the \<open>tokens\<close> event.  The second
  component of the result counts the requests sent to the token endpoint.
\<close>

definition eagerRefreshThresholdMillis :: int where
  "eagerRefreshThresholdMillis = 5 * 60 * 1000"

definition isTokenExpiring :: "int \<Rightarrow> credentials \<Rightarrow> bool" where
  "isTokenExpiring now c =
     (if cred_expiry_date c \<noteq> 0 then cred_expiry_date c \<le> now + eagerRefreshThresholdMillis
      else False)"

type_synonym token_endpoint = "string option \<Rightarrow> js_error + tokens"

definition library_getAccessToken ::
    "token_endpoint \<Rightarrow> int \<Rightarrow> credentials \<Rightarrow> access_outcome \<times> nat" where
  "library_getAccessToken endpoint now c =
     (if truthy_str (cred_access_token c) \<and> \<not> isTokenExpiring now c then (Returns None, 0)
      else if truthy_str (cred_refresh_token c) then
        (case endpoint (cred_refresh_token c) of
           Inl err \<Rightarrow> (Throws err, 1)
         | Inr t \<Rightarrow> (Returns (Some t), 1))
      else (Throws (new_Error ''No refresh token or refresh handler callback is set.''), 0))"

text \<open>
  \<open>getGoogleOAuthUrl\<close>: \<open>auth_url_options\<close> is the object handed to the OAuth library's
  \<open>generateAuthUrl\<close>, which is a parameter.
\<close>

record authUrlOptions =
  access_type :: string
  scope :: "string list"
  state :: "string option"
  prompt :: string
  include_granted_scopes :: bool

definition auth_url_options :: "string list \<Rightarrow> string option \<Rightarrow> authUrlOptions" where
  "auth_url_options scopes st =
     \<lparr>access_type = ''offline'', scope = scopes, state = st, prompt = ''consent'',
      include_granted_scopes = True\<rparr>"

definition getGoogleOAuthUrl ::
    "(authUrlOptions \<Rightarrow> string) \<Rightarrow> string list \<Rightarrow> string option \<Rightarrow> string" where
  "getGoogleOAuthUrl generateAuthUrl scopes st = generateAuthUrl (auth_url_options scopes st)"

section \<open>Calendar service (\<open>services/google\<close>)\<close>

text \<open>
  \<open>new Date(s)\<close> on a string is the JavaScript runtime's date parser, a parameter
  \<open>parse\<close> of the model.  \<open>calendar.events.list\<close> and \<open>calendar.events.insert\<close> are the
  provider's, parameters as well.
\<close>

type_synonym date_parser = "string \<Rightarrow> jsdate"

text \<open>\<open>x?.dateTime ? new Date(x.dateTime) : null\<close>\<close>

definition timed :: "date_parser \<Rightarrow> string option \<Rightarrow> jsdate option" where
  "timed parse dt = (if truthy_str dt then map_option parse dt else None)"

text \<open>One element pushed to \<open>conflicts\<close>; the two dates stand for their \<open>toISOString()\<close>.\<close>

record conflict =
  c_id :: "string option"
  c_summary :: "string option"
  c_start_dateTime :: jsdate
  c_end_dateTime :: jsdate

text \<open>The \<open>for\<close> loop of \<open>checkConflict\<close>, with the array \<open>conflicts\<close> it pushes to.\<close>

fun checkConflict_loop ::
    "date_parser \<Rightarrow> jsdate \<Rightarrow> jsdate \<Rightarrow> event list \<Rightarrow> conflict list \<Rightarrow> conflict list" where
  "checkConflict_loop parse startTime endTime [] conflicts = conflicts"
| "checkConflict_loop parse startTime endTime (ev # events) conflicts =
     (if ev_status ev = Some ''cancelled''
      then checkConflict_loop parse startTime endTime events conflicts
      else
        (case (timed parse (ev_start_dateTime ev), timed parse (ev_end_dateTime ev)) of
           (Some eventStart, Some eventEnd) \<Rightarrow>
             if date_lt eventStart endTime \<and> date_lt startTime eventEnd
             then checkConflict_loop parse startTime endTime events
                    (conflicts @ [\<lparr>c_id = ev_id ev, c_summary = ev_summary ev,
                                   c_start_dateTime = eventStart, c_end_dateTime = eventEnd\<rparr>])
             else checkConflict_loop parse startTime endTime events conflicts
         | _ \<Rightarrow> checkConflict_loop parse startTime endTime events conflicts))"

type_synonym events_list = "jsdate \<Rightarrow> jsdate \<Rightarrow> js_error + event list option"

text \<open>
  \<open>checkConflict\<close>.  \<open>toISOString()\<close> of an invalid date throws a \<open>RangeError\<close>, so an
  unparseable \<open>start\<close> or \<open>end\<close> fails before the provider is asked.
\<close>

definition checkConflict ::
    "provider \<Rightarrow> events_list \<Rightarrow> date_parser \<Rightarrow> int \<Rightarrow> authRequest \<Rightarrow> string \<Rightarrow> string \<Rightarrow> world
       \<Rightarrow> (js_error + conflict list) \<times> world" where
  "checkConflict prov events_list parse now req start_arg end_arg w =
     (case getGoogleService prov now req w of
        (Inl err, w1) \<Rightarrow> (Inl err, w1)
      | (Inr client, w1) \<Rightarrow>
          (let startTime = parse start_arg; endTime = parse end_arg in
           if startTime = InvalidDate \<or> endTime = InvalidDate
           then (Inl (new_Error ''Invalid time value''), w1)
           else
             (let w2 = w1\<lparr>trace := trace w1 @ [EventsList startTime endTime]\<rparr> in
              case events_list startTime endTime of
                Inl err \<Rightarrow> (Inl err, w2)
              | Inr items \<Rightarrow>
                  (let events = (case items of None \<Rightarrow> [] | Some xs \<Rightarrow> xs) in
                   (Inr (checkConflict_loop parse startTime endTime events []), w2)))))"

text \<open>
  \<open>createEvent\<close>: the argument it builds for \<open>calendar.events.insert\<close>.  \<open>now\<close> and \<open>rnd\<close>
  are \<open>Date.now()\<close> and \<open>Math.floor(Math.random() * 10000)\<close>; \<open>trim\<close> and \<open>toLowerCase\<close> are
  the runtime's string functions.
\<close>

definition destructured :: "string list" where
  "destructured = [''start_time'', ''end_time'', ''title'', ''description'', ''participants'',
                   ''location'', ''reminders'']"

definition is_google_meet :: "(string \<Rightarrow> string) \<Rightarrow> (string \<Rightarrow> string) \<Rightarrow> jsval \<Rightarrow> bool" where
  "is_google_meet trim toLowerCase location =
     (case location of JStr s \<Rightarrow> toLowerCase (trim s) = ''google meet'' | _ \<Rightarrow> False)"

definition createEvent_params ::
    "(string \<Rightarrow> string) \<Rightarrow> (string \<Rightarrow> string) \<Rightarrow> int \<Rightarrow> nat \<Rightarrow> jsobject option \<Rightarrow> insert_params" where
  "createEvent_params trim toLowerCase now rnd eventData =
     (let ob = (case eventData of None \<Rightarrow> [] | Some x \<Rightarrow> x);
          start_time = get_prop ob ''start_time'';
          end_time = get_prop ob ''end_time'';
          title = get_prop ob ''title'';
          description = get_prop ob ''description'';
          participants = get_prop ob ''participants'';
          location = get_prop ob ''location'';
          reminders = get_prop ob ''reminders'';
          rest = filter (\<lambda>(k, v). k \<notin> set destructured) ob;
          requestBody = obj_literal
            ([(''summary'', title),
              (''description'', description),
              (''start'', if truthy start_time then JObj [(''dateTime'', start_time)] else JUndefined),
              (''end'', if truthy end_time then JObj [(''dateTime'', end_time)] else JUndefined),
              (''attendees'',
                 case participants of
                   JArr xs \<Rightarrow> JArr (map (\<lambda>email. JObj [(''email'', email)]) xs)
                 | _ \<Rightarrow> JUndefined),
              (''location'',
                 case location of
                   JStr s \<Rightarrow> if toLowerCase (trim s) \<noteq> ''google meet'' then location else JUndefined
                 | _ \<Rightarrow> JUndefined),
              (''reminders'', reminders)] @ rest);
          requestBody' =
            (if is_google_meet trim toLowerCase location
             then obj_literal (requestBody @
               [(''conferenceData'',
                 JObj [(''createRequest'',
                   JObj [(''requestId'', JStr (''meet-'' @ decimal now @ ''-'' @ decimal (int rnd))),
                         (''conferenceSolutionKey'', JObj [(''type'', JStr ''hangoutsMeet'')])])])])
             else requestBody)
      in \<lparr>calendarId = ''primary'', requestBody = requestBody',
          conferenceDataVersion =
            (if get_prop requestBody' ''conferenceData'' \<noteq> JUndefined then Some 1 else None)\<rparr>)"

type_synonym events_insert = "insert_params \<Rightarrow> js_error + jsobject"

definition createEvent ::
    "provider \<Rightarrow> events_insert \<Rightarrow> (string \<Rightarrow> string) \<Rightarrow> (string \<Rightarrow> string) \<Rightarrow> int \<Rightarrow> nat \<Rightarrow>
       authRequest \<Rightarrow> jsobject option \<Rightarrow> world \<Rightarrow> (js_error + jsobject) \<times> world" where
  "createEvent prov events_insert trim toLowerCase now rnd req eventData w =
     (case getGoogleService prov now req w of
        (Inl err, w1) \<Rightarrow> (Inl err, w1)
      | (Inr client, w1) \<Rightarrow>
          (let params = createEvent_params trim toLowerCase now rnd eventData in
           (events_insert params, w1\<lparr>trace := trace w1 @ [EventsInsert params]\<rparr>)))"

section \<open>Controller (\<open>controllers/platforms/google\<close>)\<close>

text \<open>\<open>req.body\<close> as \<open>checkConflictSchema\<close> sees it: each field is a string or not.\<close>

record check_conflict_body =
  start_time :: "string option"
  end_time :: "string option"

text \<open>The three replies of \<open>checkConflictController\<close>: 400 with the schema errors, 200 with
  the result, 400 with a message.\<close>

datatype check_conflict_reply =
    InvalidPayload
  | ConflictResult (conflict_flag: bool) (conflicting_events: "conflict list")
  | Failure string

definition checkConflictController ::
    "provider \<Rightarrow> events_list \<Rightarrow> date_parser \<Rightarrow> int \<Rightarrow> authRequest \<Rightarrow> check_conflict_body \<Rightarrow> world
       \<Rightarrow> check_conflict_reply \<times> world" where
  "checkConflictController prov events_list parse now req body w =
     (case (start_time body, end_time body) of
        (Some s, Some e) \<Rightarrow>
          if s = [] \<or> e = [] then (InvalidPayload, w)
          else
            (case checkConflict prov events_list parse now req s e w of
               (Inr events, w1) \<Rightarrow> (ConflictResult (length events > 0) events, w1)
             | (Inl error, w1) \<Rightarrow>
                 (Failure (if message error = ''Google client not initialized''
                           then ''Google is not connected for this user''
                           else ''Unable to check for conflicts''), w1))
      | _ \<Rightarrow> (InvalidPayload, w))"

section \<open>The conflict predicate as specified\<close>

text \<open>
  The selection as the specification words it: an event conflicts with the requested
  interval when it is not cancelled, has both a timed start and a timed end, and
  \<open>e.start < end\<close> and \<open>start < e.end\<close>.  \<open>conflict_of\<close> is the entry reported for
  such an event.
\<close>

definition spec_conflict :: "date_parser \<Rightarrow> int \<Rightarrow> int \<Rightarrow> event \<Rightarrow> bool" where
  "spec_conflict parse s e ev =
     (ev_status ev \<noteq> Some ''cancelled'' \<and>
      (case (timed parse (ev_start_dateTime ev), timed parse (ev_end_dateTime ev)) of
         (Some (Date a), Some (Date b)) \<Rightarrow> a < e \<and> s < b
       | _ \<Rightarrow> False))"

definition conflict_of :: "date_parser \<Rightarrow> event \<Rightarrow> conflict" where
  "conflict_of parse ev =
     \<lparr>c_id = ev_id ev, c_summary = ev_summary ev,
      c_start_dateTime = (case timed parse (ev_start_dateTime ev) of Some d \<Rightarrow> d | None \<Rightarrow> InvalidDate),
      c_end_dateTime = (case timed parse (ev_end_dateTime ev) of Some d \<Rightarrow> d | None \<Rightarrow> InvalidDate)\<rparr>"

section \<open>Sample data\<close>

definition example_user :: user_doc where
  "example_user = \<lparr>uid = Some (ObjectId ''64f0a1''), email = ''ada@example.org''\<rparr>"

definition example_req :: authRequest where
  "example_req = \<lparr>user = Some example_user\<rparr>"

definition example_integration :: integration where
  "example_integration =
     \<lparr>iid = ObjectId ''77aa01'', user_id = ObjectId ''64f0a1'', name = ''google'',
      access_token = Some ''at-1'', refresh_token = Some ''rt-1'',
      expires_at = Some 1600000, created_at = 1000, updated_at = 1000\<rparr>"

definition other_integration :: integration where
  "other_integration =
     \<lparr>iid = ObjectId ''77aa02'', user_id = ObjectId ''64f0b2'', name = ''google'',
      access_token = Some ''at-9'', refresh_token = Some ''rt-9'',
      expires_at = None, created_at = 2000, updated_at = 2000\<rparr>"

definition example_world :: world where
  "example_world =
     \<lparr>store = [other_integration, example_integration], trace = [], pending = []\<rparr>"

definition revoked :: js_error where
  "revoked = JsError ''invalid_grant'' (Some ''invalid_grant'')"

definition example_tokens :: tokens where
  "example_tokens = \<lparr>tok_access_token = Some ''at-2'', tok_refresh_token = None,
                      tok_expiry_date = Some 5200000\<rparr>"

definition example_endpoint :: token_endpoint where
  "example_endpoint r = Inr example_tokens"



definition example_parse :: date_parser where
  "example_parse s =
     (if s = ''09:00'' then Date 900 else if s = ''10:00'' then Date 1000
      else if s = ''11:00'' then Date 1100 else if s = ''12:00'' then Date 1200
      else InvalidDate)"

definition example_events :: "event list" where
  "example_events =
     [\<lparr>ev_id = Some ''e1'', ev_summary = Some ''standup'', ev_status = Some ''confirmed'',
       ev_start_dateTime = Some ''09:00'', ev_end_dateTime = Some ''11:00'', ev_other = []\<rparr>,
      \<lparr>ev_id = Some ''e2'', ev_summary = Some ''lunch'', ev_status = Some ''cancelled'',
       ev_start_dateTime = Some ''10:00'', ev_end_dateTime = Some ''12:00'', ev_other = []\<rparr>,
      \<lparr>ev_id = Some ''e3'', ev_summary = Some ''holiday'', ev_status = Some ''confirmed'',
       ev_start_dateTime = None, ev_end_dateTime = None, ev_other = []\<rparr>,
      \<lparr>ev_id = Some ''e4'', ev_summary = Some ''review'', ev_status = Some ''confirmed'',
       ev_start_dateTime = Some ''11:00'', ev_end_dateTime = Some ''12:00'', ev_other = []\<rparr>]"

definition example_trim :: "string \<Rightarrow> string" where
  "example_trim s = (if s = '' Google Meet '' then ''Google Meet'' else s)"

definition example_toLowerCase :: "string \<Rightarrow> string" where
  "example_toLowerCase s =
     (if s = ''Google Meet'' then ''google meet'' else if s = ''Room 4'' then ''room 4'' else s)"

definition example_event_data :: jsobject where
  "example_event_data =
     [(''start_time'', JStr ''2025-01-01T10:00:00Z''), (''end_time'', JStr ''2025-01-01T11:00:00Z''),
      (''title'', JStr ''Sync''), (''location'', JStr '' Google Meet '')]"

definition example_room_data :: jsobject where
  "example_room_data =
     [(''start_time'', JStr ''2025-01-01T10:00:00Z''), (''end_time'', JStr ''2025-01-01T11:00:00Z''),
      (''title'', JStr ''Sync''), (''location'', JStr ''Room 4'')]"

section \<open>The store\<close>

lemma updateOne_map_iid: "map iid (updateOne i u ds) = map iid ds"
  by (induction ds) (auto simp: assign_def)

lemma updateOne_length: "length (updateOne i u ds) = length ds"
  by (induction ds) auto






section \<open>The refresh protocol\<close>

lemma ensureFresh_fresh:
  "expires_at i = Some e \<Longrightarrow> 0 \<le> now \<Longrightarrow> TOKEN_SKEW_MS < e - now \<Longrightarrow>
     ensureFreshAccessToken prov now c i w = (Inr i, w)"
  by (simp add: ensureFreshAccessToken_def TOKEN_SKEW_MS_def)

lemma google_client_for_fresh:
  "findOne a ''google'' (store w) = Some i \<Longrightarrow> expires_at i = Some e \<Longrightarrow> 0 \<le> now \<Longrightarrow>
   TOKEN_SKEW_MS < e - now \<Longrightarrow>
     google_client_for prov now a w =
       (Inr \<lparr>creds = client_credentials i, saves_tokens = True\<rparr>,
        w\<lparr>trace := trace w @ [FindOne a ''google'', NewOAuth2Client (client_credentials i)]\<rparr>)"
  by (simp add: google_client_for_def db_findOne_def ensureFresh_fresh Let_def refreshAndSaveTokens_def)


lemma getAccessToken_called_iff:
  "count_list (trace (snd (ensureFreshAccessToken prov now client i w))) GetAccessToken =
     count_list (trace w) GetAccessToken +
     (if expires_at i = None \<or> expires_at i = Some 0 \<or>
         (\<exists>e. expires_at i = Some e \<and> e - now \<le> TOKEN_SKEW_MS)
      then 1 else 0)"
  by (cases "expires_at i")
     (auto simp: ensureFreshAccessToken_def db_updateOne_def Let_def
        split: access_outcome.splits option.splits listener_step.splits)

lemma absent_expiry_not_expiring:
  "expires_at i = None \<Longrightarrow> \<not> isTokenExpiring now (client_credentials i)"
  by (simp add: isTokenExpiring_def client_credentials_def)

lemma present_expiry_requests_when_due:
  assumes "expires_at i = Some e" and "e \<noteq> 0"
    and "truthy_str (access_token i)" and "truthy_str (refresh_token i)"
  shows "snd (library_getAccessToken endpoint now (client_credentials i)) =
           (if e - now \<le> TOKEN_SKEW_MS then 1 else 0)"
  using assms
  by (auto simp: library_getAccessToken_def isTokenExpiring_def client_credentials_def
      eagerRefreshThresholdMillis_def TOKEN_SKEW_MS_def split: sum.splits)







section \<open>The conflict scan\<close>

lemma spec_conflict_iff:
  "spec_conflict parse s e ev \<longleftrightarrow>
     ev_status ev \<noteq> Some ''cancelled'' \<and>
     (\<exists>x y. timed parse (ev_start_dateTime ev) = Some x \<and>
            timed parse (ev_end_dateTime ev) = Some y \<and>
            date_lt x (Date e) \<and> date_lt (Date s) y)"
proof (cases "timed parse (ev_start_dateTime ev)")
  case None
  then show ?thesis by (simp add: spec_conflict_def)
next
  case sx: (Some x)
  show ?thesis
  proof (cases "timed parse (ev_end_dateTime ev)")
    case None
    with sx show ?thesis by (simp add: spec_conflict_def split: jsdate.splits)
  next
    case sy: (Some y)
    show ?thesis
      using sx sy by (cases x; cases y) (simp_all add: spec_conflict_def)
  qed
qed

lemma conflict_of_timed:
  "timed parse (ev_start_dateTime ev) = Some x \<Longrightarrow> timed parse (ev_end_dateTime ev) = Some y \<Longrightarrow>
     conflict_of parse ev =
       \<lparr>c_id = ev_id ev, c_summary = ev_summary ev, c_start_dateTime = x, c_end_dateTime = y\<rparr>"
  by (simp add: conflict_of_def)

lemma checkConflict_loop_step:
  "checkConflict_loop parse (Date s) (Date e) (ev # events) conflicts =
     checkConflict_loop parse (Date s) (Date e) events
       (if spec_conflict parse s e ev then conflicts @ [conflict_of parse ev] else conflicts)"
proof (cases "spec_conflict parse s e ev")
  case True
  then obtain x y where "ev_status ev \<noteq> Some ''cancelled''"
      "timed parse (ev_start_dateTime ev) = Some x" "timed parse (ev_end_dateTime ev) = Some y"
      "date_lt x (Date e)" "date_lt (Date s) y"
    unfolding spec_conflict_iff by blast
  with True show ?thesis by (simp add: conflict_of_timed)
next
  case False
  then show ?thesis
    unfolding spec_conflict_iff by (auto split: option.splits)
qed

lemma checkConflict_loop_filter:
  "checkConflict_loop parse (Date s) (Date e) events conflicts =
     conflicts @ map (conflict_of parse) (filter (spec_conflict parse s e) events)"
proof (induction events arbitrary: conflicts)
  case Nil
  then show ?case by simp
next
  case (Cons ev events)
  show ?case
    unfolding checkConflict_loop_step by (simp add: Cons.IH)
qed

lemma controller_reply_without_integration:
  assumes "user req = Some u" and "uid u = Some a"
    and "findOne a ''google'' (store w) = None"
    and "start_time body = Some ss" and "ss \<noteq> []" and "end_time body = Some es" and "es \<noteq> []"
  shows "fst (checkConflictController prov events_list parse now req body w) =
           Failure ''Unable to check for conflicts''"
  using assms
  by (simp add: checkConflictController_def checkConflict_def getGoogleService_def
      google_client_for_def db_findOne_def new_Error_def)

section \<open>Object literals\<close>

lemma map_of_obj_literal_acc:
  "map_of (foldl (\<lambda>ob (k, v). AList.update k v ob) acc props) = map_of acc ++ map_of (rev props)"
proof (induction props arbitrary: acc)
  case Nil
  then show ?case by simp
next
  case (Cons p props)
  obtain k v where p: "p = (k, v)" by (cases p)
  have "map_of (AList.update k v acc) ++ map_of (rev props) =
        map_of acc ++ (map_of (rev props @ [(k, v)]))"
    by (simp add: update_conv' map_add_upd_left fun_eq_iff map_add_def split: option.splits)
  then show ?case by (simp add: Cons.IH p)
qed

lemma get_prop_obj_literal:
  "get_prop (obj_literal props) k = (case map_of (rev props) k of None \<Rightarrow> JUndefined | Some v \<Rightarrow> v)"
  by (simp add: get_prop_def obj_literal_def map_of_obj_literal_acc)

lemma map_of_rev_distinct:
  "distinct (map fst ps) \<Longrightarrow> map_of (rev ps) = map_of ps"
  by (simp add: map_of_inject_set distinct_rev rev_map[symmetric] del: rev_map)

lemma distinct_obj_literal_acc:
  "distinct (map fst acc) \<Longrightarrow>
     distinct (map fst (foldl (\<lambda>ob (k, v). AList.update k v ob) acc props))"
  by (induction props arbitrary: acc) (auto simp: distinct_update)

lemma distinct_obj_literal: "distinct (map fst (obj_literal props))"
  by (simp add: obj_literal_def distinct_obj_literal_acc)

lemma get_prop_spread:
  "get_prop (obj_literal (named @ rest)) k =
     (case map_of (rev rest) k of
        None \<Rightarrow> (case map_of (rev named) k of None \<Rightarrow> JUndefined | Some v \<Rightarrow> v)
      | Some v \<Rightarrow> v)"
  by (simp add: get_prop_obj_literal map_add_def split: option.splits)

lemma map_of_rest:
  "map_of (filter (\<lambda>(k, v). k \<notin> A) ob) k = (if k \<in> A then None else map_of ob k)"
  by (induction ob) auto

lemma distinct_rest: "distinct (map fst ob) \<Longrightarrow> distinct (map fst (filter P ob))"
  by (induction ob) auto

lemma get_prop_set_last:
  "get_prop (obj_literal (ob @ [(k', v)])) k =
     (if k = k' then v else get_prop (obj_literal ob) k)"
  by (simp add: get_prop_obj_literal)

lemma obj_literal_idem: "distinct (map fst ob) \<Longrightarrow> get_prop (obj_literal ob) k = get_prop ob k"
  unfolding get_prop_obj_literal by (simp add: get_prop_def map_of_rev_distinct)

lemma body_location:
  "get_prop (obj_literal ([(''summary'', a), (''description'', b), (''start'', c), (''end'', d),
       (''attendees'', e), (''location'', l), (''reminders'', r)] @ rest)) ''location'' =
     (case map_of (rev rest) ''location'' of None \<Rightarrow> l | Some v \<Rightarrow> v)"
  unfolding get_prop_spread by (simp add: map_add_def split: option.splits)

lemma body_conferenceData:
  "get_prop (obj_literal ([(''summary'', a), (''description'', b), (''start'', c), (''end'', d),
       (''attendees'', e), (''location'', l), (''reminders'', r)] @ rest)) ''conferenceData'' =
     (case map_of (rev rest) ''conferenceData'' of None \<Rightarrow> JUndefined | Some v \<Rightarrow> v)"
  unfolding get_prop_spread by (simp add: map_add_def split: option.splits)

section \<open>Sample runs\<close>

lemmas example_defs = example_user_def example_req_def example_integration_def
  other_integration_def example_world_def revoked_def example_tokens_def

lemma example_fresh:
  "getGoogleService prov 1000000 example_req example_world =
     (Inr \<lparr>creds = client_credentials example_integration, saves_tokens = True\<rparr>,
      example_world\<lparr>trace := [FindOne (ObjectId ''64f0a1'') ''google'',
                                 NewOAuth2Client (client_credentials example_integration)]\<rparr>)"
  by (simp add: getGoogleService_def google_client_for_def db_findOne_def findOne_def
      ensureFreshAccessToken_def TOKEN_SKEW_MS_def example_defs Let_def refreshAndSaveTokens_def)


section \<open>Properties\<close>

text \<open>
  C1.  The authorization gate compares the string forms of the two ids.  For an
  authenticated principal with id \<open>a\<close>, \<open>authorizeUserAccess\<close> returns \<open>true\<close> when
  \<open>a.toString()\<close> equals the resource owner's id and throws the Unauthorized error for
  every other owner.  \<open>getGoogleServiceByUserId\<close> throws its Unauthorized error for every
  pair of distinct ids, and for equal ids lets the call through to the lookup.
\<close>

theorem authorize_gate_decides:
  assumes "user req = Some u" and "uid u = Some a"
  shows "authorizeUserAccess req b =
           (if toString a = b then Inr True
            else Inl (new_Error ''Unauthorized: Cannot access another user's resources''))
         \<and> getGoogleServiceByUserId prov now x y w =
           (if x = y then google_client_for prov now (ObjectId x) w
            else (Inl (new_Error ''Unauthorized: Cannot access another user's integrations''), w))"
  using assms by (simp add: authorizeUserAccess_def getGoogleServiceByUserId_def)

theorem authorize_gate_decides_witness:
  "authorizeUserAccess example_req ''64f0a1'' = Inr True
   \<and> authorizeUserAccess example_req ''64f0b2'' =
       Inl (new_Error ''Unauthorized: Cannot access another user's resources'')
   \<and> getGoogleServiceByUserId (\<lambda>c. Returns None) 1000000 ''64f0b2'' ''64f0a1'' example_world =
       (Inl (new_Error ''Unauthorized: Cannot access another user's integrations''), example_world)"
  using authorize_gate_decides[of example_req example_user "ObjectId ''64f0a1''" "''64f0a1''"
          "\<lambda>c. Returns None" 1000000 "''64f0b2''" "''64f0a1''" example_world]
        authorize_gate_decides[of example_req example_user "ObjectId ''64f0a1''" "''64f0b2''"
          "\<lambda>c. Returns None" 1000000 "''64f0b2''" "''64f0a1''" example_world]
  by (simp add: example_req_def example_user_def)

text \<open>
  C2.  The freshness test is to treat an absent \<open>expires_at\<close> as expired and have a
  refresh attempted.  \<open>ensureFreshAccessToken\<close> does take its refresh branch for it and
  calls \<open>client.getAccessToken()\<close>; but \<open>getGoogleService\<close> has given the client an
  \<open>expiry_date\<close> of 0 for the absent \<open>expires_at\<close>, which the library reads as a token
  that is not expiring.  With a stored access token the call returns that token and sends
  nothing to the token endpoint: for an absent \<open>expires_at\<close> no refresh is attempted, at any
  clock reading and whatever the endpoint would answer, and the client is handed out on the
  stored token.
\<close>

theorem absent_expiry_sends_no_token_request:
  assumes "user req = Some u" and "uid u = Some a"
    and "findOne a ''google'' (store w) = Some i"
    and "expires_at i = None" and "truthy_str (access_token i)"
  shows "library_getAccessToken endpoint now (client_credentials i) = (Returns None, 0)
         \<and> getGoogleService (\<lambda>c. fst (library_getAccessToken endpoint now c)) now req w =
             (Inr \<lparr>creds = client_credentials i, saves_tokens = True\<rparr>,
              w\<lparr>trace := trace w @ [FindOne a ''google'', NewOAuth2Client (client_credentials i),
                                     GetAccessToken]\<rparr>)"
proof -
  have lib: "library_getAccessToken endpoint now (client_credentials i) = (Returns None, 0)"
    using assms(4,5) absent_expiry_not_expiring[of i now]
    by (simp add: library_getAccessToken_def client_credentials_def)
  have "ensureFreshAccessToken (\<lambda>c. fst (library_getAccessToken endpoint now c)) now
          \<lparr>creds = client_credentials i, saves_tokens = True\<rparr> i w' =
        (Inr i, w'\<lparr>trace := trace w' @ [GetAccessToken]\<rparr>)" for w'
    using assms(4) by (simp add: ensureFreshAccessToken_def lib)
  then show ?thesis
    using assms(1-3) lib
    by (simp add: getGoogleService_def google_client_for_def db_findOne_def Let_def
        refreshAndSaveTokens_def)
qed

theorem absent_expiry_sends_no_token_request_witness:
  "library_getAccessToken example_endpoint 9000000 (client_credentials other_integration) =
     (Returns None, 0)
   \<and> getGoogleService (\<lambda>c. fst (library_getAccessToken example_endpoint 9000000 c)) 9000000
       \<lparr>user = Some \<lparr>uid = Some (ObjectId ''64f0b2''), email = ''bob@example.org''\<rparr>\<rparr> example_world =
     (Inr \<lparr>creds = client_credentials other_integration, saves_tokens = True\<rparr>,
      example_world\<lparr>trace := [FindOne (ObjectId ''64f0b2'') ''google'',
                                 NewOAuth2Client (client_credentials other_integration),
                                 GetAccessToken]\<rparr>)"
  using absent_expiry_sends_no_token_request[where
          req = "\<lparr>user = Some \<lparr>uid = Some (ObjectId ''64f0b2''), email = ''bob@example.org''\<rparr>\<rparr>"
          and u = "\<lparr>uid = Some (ObjectId ''64f0b2''), email = ''bob@example.org''\<rparr>"
          and a = "ObjectId ''64f0b2''" and w = example_world and i = other_integration
          and endpoint = example_endpoint and now = 9000000]
  by (simp add: example_defs findOne_def truthy_str_def)

text \<open>
  C3.  When the stored \<open>expires_at\<close> lies more than the skew window after \<open>now\<close>,
  \<open>getGoogleService\<close> looks the integration up, constructs the client, and does nothing
  else: no call of the provider, no write, the store as before.  A second call while the
  token is still fresh does the same, and the store is still the one before the first call.
\<close>

theorem fresh_token_no_refresh_no_write:
  assumes "user req = Some u" and "uid u = Some a"
    and "findOne a ''google'' (store w) = Some i" and "expires_at i = Some e"
    and "0 \<le> now" and "now \<le> now'" and "TOKEN_SKEW_MS < e - now'"
  shows "getGoogleService prov now req w =
           (Inr \<lparr>creds = client_credentials i, saves_tokens = True\<rparr>,
            w\<lparr>trace := trace w @ [FindOne a ''google'', NewOAuth2Client (client_credentials i)]\<rparr>)
         \<and> store (snd (getGoogleService prov now req w)) = store w
         \<and> getGoogleService prov now' req (snd (getGoogleService prov now req w)) =
           (Inr \<lparr>creds = client_credentials i, saves_tokens = True\<rparr>,
            w\<lparr>trace := trace w @ [FindOne a ''google'', NewOAuth2Client (client_credentials i),
                                   FindOne a ''google'', NewOAuth2Client (client_credentials i)]\<rparr>)
         \<and> store (snd (getGoogleService prov now' req (snd (getGoogleService prov now req w)))) = store w"
proof -
  let ?c = "client_credentials i"
  let ?cl = "\<lparr>creds = client_credentials i, saves_tokens = True\<rparr>"
  let ?w1 = "w\<lparr>trace := trace w @ [FindOne a ''google'', NewOAuth2Client ?c]\<rparr>"
  from assms have fresh: "TOKEN_SKEW_MS < e - now" and pos: "0 \<le> now'" by simp_all
  have one: "getGoogleService prov now req w = (Inr ?cl, ?w1)"
    using assms(1-5) fresh by (simp add: getGoogleService_def google_client_for_fresh)
  have found: "findOne a ''google'' (store ?w1) = Some i"
    using assms(3) by simp
  have two: "getGoogleService prov now' req ?w1 =
               (Inr ?cl, ?w1\<lparr>trace := trace ?w1 @ [FindOne a ''google'', NewOAuth2Client ?c]\<rparr>)"
    using assms(1,2,4,7) pos found
    by (simp only: getGoogleService_def option.case google_client_for_fresh)
  show ?thesis
    by (simp add: one two)
qed

theorem fresh_token_no_refresh_no_write_witness:
  "getGoogleService (\<lambda>c. Throws revoked) 1200000 example_req
     (snd (getGoogleService (\<lambda>c. Throws revoked) 1000000 example_req example_world)) =
     (Inr \<lparr>creds = client_credentials example_integration, saves_tokens = True\<rparr>,
      example_world\<lparr>trace :=
        [FindOne (ObjectId ''64f0a1'') ''google'', NewOAuth2Client (client_credentials example_integration),
         FindOne (ObjectId ''64f0a1'') ''google'', NewOAuth2Client (client_credentials example_integration)]\<rparr>)"
  using fresh_token_no_refresh_no_write[of example_req example_user "ObjectId ''64f0a1''"
          example_world example_integration 1600000 1000000 1200000 "\<lambda>c. Throws revoked",
          THEN conjunct2, THEN conjunct2, THEN conjunct1]
  by (simp add: example_defs findOne_def TOKEN_SKEW_MS_def)






text \<open>
  C6.  In \<open>getGoogleServiceByUserId\<close> the authorization check comes first: for every
  pair of distinct ids the call fails with the Unauthorized error and the world is exactly
  as before (no store access, no provider call), whatever the store holds.
\<close>

theorem byUserId_gate_first:
  "userId \<noteq> requestingUserId \<Longrightarrow>
     getGoogleServiceByUserId prov now userId requestingUserId w =
       (Inl (new_Error ''Unauthorized: Cannot access another user's integrations''), w)"
  by (simp add: getGoogleServiceByUserId_def)

theorem byUserId_gate_first_witness:
  "getGoogleServiceByUserId (\<lambda>c. Throws revoked) 1500000 ''64f0a1'' ''64f0b2'' example_world =
     (Inl (new_Error ''Unauthorized: Cannot access another user's integrations''), example_world)"
  using byUserId_gate_first[of "''64f0a1''" "''64f0b2''" "\<lambda>c. Throws revoked" 1500000 example_world]
  by simp

text \<open>
  C7.  For an authenticated user without a stored \<open>google\<close> integration,
  \<open>getGoogleService\<close> fails with \<open>No Google integration found\<close>; the only effect is the
  lookup: no client is constructed and the provider is not called.
\<close>

theorem no_integration_not_connected:
  assumes "user req = Some u" and "uid u = Some a"
    and "findOne a ''google'' (store w) = None"
  shows "getGoogleService prov now req w =
           (Inl (new_Error ''No Google integration found''),
            w\<lparr>trace := trace w @ [FindOne a ''google'']\<rparr>)"
  using assms by (simp add: getGoogleService_def google_client_for_def db_findOne_def)

theorem no_integration_not_connected_witness:
  "getGoogleService (\<lambda>c. Returns None) 1000000 example_req
     \<lparr>store = [other_integration], trace = [], pending = []\<rparr> =
     (Inl (new_Error ''No Google integration found''),
      \<lparr>store = [other_integration], trace = [FindOne (ObjectId ''64f0a1'') ''google''],
       pending = []\<rparr>)"
  using no_integration_not_connected[of example_req example_user "ObjectId ''64f0a1''"
          "\<lparr>store = [other_integration], trace = [], pending = []\<rparr>" "\<lambda>c. Returns None" 1000000]
  by (simp add: example_defs findOne_def)

text \<open>
  C8.  \<open>getGoogleOAuthUrl\<close> hands \<open>generateAuthUrl\<close> options with
  \<open>access_type = "offline"\<close> and \<open>prompt = "consent"\<close>, for every list of scopes and every
  state, present or absent.
\<close>

theorem oauth_url_offline_consent:
  "getGoogleOAuthUrl generateAuthUrl scopes st = generateAuthUrl (auth_url_options scopes st)
   \<and> access_type (auth_url_options scopes st) = ''offline''
   \<and> prompt (auth_url_options scopes st) = ''consent''
   \<and> scope (auth_url_options scopes st) = scopes
   \<and> state (auth_url_options scopes st) = st"
  by (simp add: getGoogleOAuthUrl_def auth_url_options_def)

theorem oauth_url_offline_consent_witness:
  "getGoogleOAuthUrl (\<lambda>opts. access_type opts @ ''+'' @ prompt opts) [''calendar''] None =
     ''offline+consent''"
  using oauth_url_offline_consent[of "\<lambda>opts. access_type opts @ ''+'' @ prompt opts"
          "[''calendar'']" None]
  by simp

text \<open>
  C9.  The loop of \<open>checkConflict\<close> is an overlap scan over the fetched events in their
  order: it reports (by id, summary, start and end) exactly the events that the specified
  predicate selects.  For a well-formed request whose dates parse, with a client obtained
  and a list returned by the provider, \<open>checkConflict\<close> returns that list, and the
  controller replies with it and with \<open>conflict = true\<close> exactly when it is not empty.
\<close>

theorem conflict_check_is_overlap_scan:
  assumes "start_time body = Some ss" and "ss \<noteq> []" and "end_time body = Some es" and "es \<noteq> []"
    and "parse ss = Date s" and "parse es = Date e"
    and "getGoogleService prov now req w = (Inr client, w1)"
    and "events_list (Date s) (Date e) = Inr items"
  shows "checkConflict_loop parse (Date s) (Date e) events [] =
           map (conflict_of parse) (filter (spec_conflict parse s e) events)
         \<and> checkConflict prov events_list parse now req ss es w =
           (Inr (map (conflict_of parse)
                  (filter (spec_conflict parse s e) (case items of None \<Rightarrow> [] | Some xs \<Rightarrow> xs))),
            w1\<lparr>trace := trace w1 @ [EventsList (Date s) (Date e)]\<rparr>)
         \<and> conflicting_events (fst (checkConflictController prov events_list parse now req body w)) =
             map (conflict_of parse)
               (filter (spec_conflict parse s e) (case items of None \<Rightarrow> [] | Some xs \<Rightarrow> xs))
         \<and> (conflict_flag (fst (checkConflictController prov events_list parse now req body w)) \<longleftrightarrow>
             filter (spec_conflict parse s e) (case items of None \<Rightarrow> [] | Some xs \<Rightarrow> xs) \<noteq> [])"
proof -
  let ?found = "map (conflict_of parse)
                  (filter (spec_conflict parse s e) (case items of None \<Rightarrow> [] | Some xs \<Rightarrow> xs))"
  have loop: "\<And>evs. checkConflict_loop parse (Date s) (Date e) evs [] =
                 map (conflict_of parse) (filter (spec_conflict parse s e) evs)"
    by (simp add: checkConflict_loop_filter)
  have svc: "checkConflict prov events_list parse now req ss es w =
               (Inr ?found, w1\<lparr>trace := trace w1 @ [EventsList (Date s) (Date e)]\<rparr>)"
    using assms(5-8) by (simp add: checkConflict_def loop)
  have ctl: "checkConflictController prov events_list parse now req body w =
               (ConflictResult (length ?found > 0) ?found,
                w1\<lparr>trace := trace w1 @ [EventsList (Date s) (Date e)]\<rparr>)"
    using assms(1-4) by (simp add: checkConflictController_def svc)
  show ?thesis
    by (simp add: loop svc ctl)
qed

theorem conflict_check_is_overlap_scan_witness:
  "checkConflictController (\<lambda>c. Returns None) (\<lambda>s e. Inr (Some example_events)) example_parse 1000000
      example_req \<lparr>start_time = Some ''10:00'', end_time = Some ''12:00''\<rparr> example_world =
     (ConflictResult True
        [\<lparr>c_id = Some ''e1'', c_summary = Some ''standup'',
          c_start_dateTime = Date 900, c_end_dateTime = Date 1100\<rparr>,
         \<lparr>c_id = Some ''e4'', c_summary = Some ''review'',
          c_start_dateTime = Date 1100, c_end_dateTime = Date 1200\<rparr>],
      example_world\<lparr>trace := [FindOne (ObjectId ''64f0a1'') ''google'',
                                 NewOAuth2Client (client_credentials example_integration),
                                 EventsList (Date 1000) (Date 1200)]\<rparr>)"
proof -
  have p1: "example_parse ''10:00'' = Date 1000" and p2: "example_parse ''12:00'' = Date 1200"
    by (simp_all add: example_parse_def)
  have found: "map (conflict_of example_parse) (filter (spec_conflict example_parse 1000 1200) example_events) =
        [\<lparr>c_id = Some ''e1'', c_summary = Some ''standup'',
          c_start_dateTime = Date 900, c_end_dateTime = Date 1100\<rparr>,
         \<lparr>c_id = Some ''e4'', c_summary = Some ''review'',
          c_start_dateTime = Date 1100, c_end_dateTime = Date 1200\<rparr>]"
    by (simp add: example_events_def spec_conflict_def conflict_of_def timed_def truthy_str_def
        example_parse_def)
  have "checkConflict (\<lambda>c. Returns None) (\<lambda>s e. Inr (Some example_events)) example_parse 1000000
          example_req ''10:00'' ''12:00'' example_world =
        (Inr (map (conflict_of example_parse)
               (filter (spec_conflict example_parse 1000 1200) example_events)),
         example_world\<lparr>trace := [FindOne (ObjectId ''64f0a1'') ''google'',
                                 NewOAuth2Client (client_credentials example_integration),
                                 EventsList (Date 1000) (Date 1200)]\<rparr>)"
    using conflict_check_is_overlap_scan[where
        body = "\<lparr>start_time = Some ''10:00'', end_time = Some ''12:00''\<rparr>"
        and ss = "''10:00''" and es = "''12:00''" and parse = example_parse and s = 1000 and e = 1200
        and prov = "\<lambda>c. Returns None" and now = 1000000 and req = example_req
        and w = example_world and client = "\<lparr>creds = client_credentials example_integration, saves_tokens = True\<rparr>"
        and ?w1.0 = "example_world\<lparr>trace := [FindOne (ObjectId ''64f0a1'') ''google'',
                                 NewOAuth2Client (client_credentials example_integration)]\<rparr>"
        and events_list = "\<lambda>s e. Inr (Some example_events)" and items = "Some example_events"
        and events = "[]"]
    by (simp add: p1 p2 example_fresh)
  then show ?thesis
    by (simp add: checkConflictController_def found)
qed

text \<open>
  C10.  \<open>createEvent\<close> with a string \<open>location\<close>, on an object with distinct keys.  When
  the trimmed, lower-cased location is \<open>google meet\<close>, the request body has no location,
  carries a \<open>conferenceData\<close> create-request for \<open>hangoutsMeet\<close>, and
  \<open>conferenceDataVersion\<close> is 1.  For every other location the body carries the location
  unchanged and its \<open>conferenceData\<close> is the caller's own (none when the caller gave none,
  and then \<open>conferenceDataVersion\<close> is absent).
\<close>

theorem google_meet_marker:
  assumes "distinct (map fst ob)" and "get_prop ob ''location'' = JStr loc"
    and "getGoogleService prov now req w = (Inr client, w1)"
  shows
    "createEvent prov events_insert trim toLowerCase now rnd req (Some ob) w =
       (events_insert (createEvent_params trim toLowerCase now rnd (Some ob)),
        w1\<lparr>trace := trace w1 @ [EventsInsert (createEvent_params trim toLowerCase now rnd (Some ob))]\<rparr>)
     \<and> (toLowerCase (trim loc) = ''google meet'' \<longrightarrow>
          get_prop (requestBody (createEvent_params trim toLowerCase now rnd (Some ob))) ''location'' = JUndefined \<and>
          get_prop (requestBody (createEvent_params trim toLowerCase now rnd (Some ob))) ''conferenceData'' =
            JObj [(''createRequest'',
               JObj [(''requestId'', JStr (''meet-'' @ decimal now @ ''-'' @ decimal (int rnd))),
                     (''conferenceSolutionKey'', JObj [(''type'', JStr ''hangoutsMeet'')])])] \<and>
          conferenceDataVersion (createEvent_params trim toLowerCase now rnd (Some ob)) = Some 1)
     \<and> (toLowerCase (trim loc) \<noteq> ''google meet'' \<longrightarrow>
          get_prop (requestBody (createEvent_params trim toLowerCase now rnd (Some ob))) ''location'' = JStr loc \<and>
          get_prop (requestBody (createEvent_params trim toLowerCase now rnd (Some ob))) ''conferenceData'' =
            get_prop ob ''conferenceData'' \<and>
          conferenceDataVersion (createEvent_params trim toLowerCase now rnd (Some ob)) =
            (if get_prop ob ''conferenceData'' = JUndefined then None else Some 1))"
proof -
  let ?rest = "filter (\<lambda>(k, v). k \<notin> set destructured) ob"
  let ?conf = "JObj [(''createRequest'',
               JObj [(''requestId'', JStr (''meet-'' @ decimal now @ ''-'' @ decimal (int rnd))),
                     (''conferenceSolutionKey'', JObj [(''type'', JStr ''hangoutsMeet'')])])]"
  let ?p = "createEvent_params trim toLowerCase now rnd (Some ob)"
  define body where "body = obj_literal
            ([(''summary'', get_prop ob ''title''),
              (''description'', get_prop ob ''description''),
              (''start'', if truthy (get_prop ob ''start_time'')
                          then JObj [(''dateTime'', get_prop ob ''start_time'')] else JUndefined),
              (''end'', if truthy (get_prop ob ''end_time'')
                        then JObj [(''dateTime'', get_prop ob ''end_time'')] else JUndefined),
              (''attendees'',
                 case get_prop ob ''participants'' of
                   JArr xs \<Rightarrow> JArr (map (\<lambda>email. JObj [(''email'', email)]) xs)
                 | _ \<Rightarrow> JUndefined),
              (''location'',
                 if toLowerCase (trim loc) \<noteq> ''google meet'' then JStr loc else JUndefined),
              (''reminders'', get_prop ob ''reminders'')] @ ?rest)"
  have rev_rest: "map_of (rev ?rest) = map_of ?rest"
    using assms(1) by (intro map_of_rev_distinct distinct_rest)
  have rest_loc: "map_of (rev ?rest) ''location'' = None"
    unfolding rev_rest map_of_rest by (simp add: destructured_def)
  have rest_cd: "map_of (rev ?rest) ''conferenceData'' = map_of ob ''conferenceData''"
    unfolding rev_rest map_of_rest by (simp add: destructured_def)
  have body_loc: "get_prop body ''location'' =
                    (if toLowerCase (trim loc) \<noteq> ''google meet'' then JStr loc else JUndefined)"
    unfolding body_def body_location rest_loc by simp
  have body_cd: "get_prop body ''conferenceData'' = get_prop ob ''conferenceData''"
    unfolding body_def body_conferenceData rest_cd by (simp add: get_prop_def)
  have body_distinct: "distinct (map fst body)"
    unfolding body_def by (rule distinct_obj_literal)
  have params: "?p =
      \<lparr>calendarId = ''primary'',
       requestBody = (if toLowerCase (trim loc) = ''google meet''
                      then obj_literal (body @ [(''conferenceData'', ?conf)]) else body),
       conferenceDataVersion =
         (if get_prop (if toLowerCase (trim loc) = ''google meet''
                       then obj_literal (body @ [(''conferenceData'', ?conf)]) else body)
               ''conferenceData'' \<noteq> JUndefined then Some 1 else None)\<rparr>"
    by (simp add: createEvent_params_def Let_def body_def is_google_meet_def assms(2))
  have call: "createEvent prov events_insert trim toLowerCase now rnd req (Some ob) w =
       (events_insert ?p, w1\<lparr>trace := trace w1 @ [EventsInsert ?p]\<rparr>)"
    using assms(3) by (simp add: createEvent_def Let_def)
  have meet: "toLowerCase (trim loc) = ''google meet'' \<longrightarrow>
          get_prop (requestBody ?p) ''location'' = JUndefined \<and>
          get_prop (requestBody ?p) ''conferenceData'' = ?conf \<and>
          conferenceDataVersion ?p = Some 1"
    unfolding params
    by (simp add: get_prop_set_last obj_literal_idem[OF body_distinct] body_loc)
  have other: "toLowerCase (trim loc) \<noteq> ''google meet'' \<longrightarrow>
          get_prop (requestBody ?p) ''location'' = JStr loc \<and>
          get_prop (requestBody ?p) ''conferenceData'' = get_prop ob ''conferenceData'' \<and>
          conferenceDataVersion ?p =
            (if get_prop ob ''conferenceData'' = JUndefined then None else Some 1)"
    unfolding params by (simp add: body_loc body_cd)
  show ?thesis
    using call meet other by blast
qed

theorem google_meet_marker_witness:
  "get_prop (requestBody (createEvent_params example_trim example_toLowerCase 1000000 42 (Some example_event_data))) ''location''
     = JUndefined
   \<and> conferenceDataVersion (createEvent_params example_trim example_toLowerCase 1000000 42 (Some example_event_data)) = Some 1
   \<and> get_prop (requestBody (createEvent_params example_trim example_toLowerCase 1000000 42 (Some example_room_data))) ''location''
     = JStr ''Room 4''
   \<and> get_prop (requestBody (createEvent_params example_trim example_toLowerCase 1000000 42 (Some example_room_data)))
        ''conferenceData'' = JUndefined
   \<and> conferenceDataVersion (createEvent_params example_trim example_toLowerCase 1000000 42 (Some example_room_data)) = None"
proof -
  have meet: "example_toLowerCase (example_trim '' Google Meet '') = ''google meet''"
    by (simp add: example_trim_def example_toLowerCase_def)
  have room: "example_toLowerCase (example_trim ''Room 4'') \<noteq> ''google meet''"
    by (simp add: example_trim_def example_toLowerCase_def)
  have d1: "distinct (map fst example_event_data)" and l1: "get_prop example_event_data ''location'' = JStr '' Google Meet ''"
    by (simp_all add: example_event_data_def get_prop_def)
  have d2: "distinct (map fst example_room_data)" and l2: "get_prop example_room_data ''location'' = JStr ''Room 4''"
    and c2: "get_prop example_room_data ''conferenceData'' = JUndefined"
    by (simp_all add: example_room_data_def get_prop_def)
  show ?thesis
    using google_meet_marker[where events_insert = "\<lambda>p. Inr (requestBody p)" and rnd = 42
            and trim = example_trim and toLowerCase = example_toLowerCase,
            OF d1 l1 example_fresh]
          google_meet_marker[where events_insert = "\<lambda>p. Inr (requestBody p)" and rnd = 42
            and trim = example_trim and toLowerCase = example_toLowerCase,
            OF d2 l2 example_fresh]
          meet room c2
    by simp
qed

end
